theory Spec2Isabelle
  imports Complex_Main
begin

section \<open>Python values, exceptions and the builtins the pipeline relies on\<close>

text \<open>
  The exceptions that the statements of \<^verbatim>\<open>iss.py\<close> can raise. Every one of them is a
  subclass of Python's \<^verbatim>\<open>Exception\<close>. In the \<^verbatim>\<open>requests\<close> library \<^verbatim>\<open>ConnectionError\<close>,
  \<^verbatim>\<open>Timeout\<close>, \<^verbatim>\<open>HTTPError\<close> and \<^verbatim>\<open>JSONDecodeError\<close> derive from \<^verbatim>\<open>RequestException\<close>;
  \<^verbatim>\<open>requests.JSONDecodeError\<close> derives from \<^verbatim>\<open>ValueError\<close> as well. A plain \<^verbatim>\<open>OSError\<close>
  (what \<^verbatim>\<open>open\<close> raises) is not a \<^verbatim>\<open>RequestException\<close>.
\<close>

datatype exn =
    KeyError | TypeError | ValueError | OverflowError | AttributeError | OSError
  | ConnectionError | Timeout | HTTPError | JSONDecodeError

fun isinstance_Exception :: "exn \<Rightarrow> bool" where
  "isinstance_Exception KeyError = True"
| "isinstance_Exception TypeError = True"
| "isinstance_Exception ValueError = True"
| "isinstance_Exception OverflowError = True"
| "isinstance_Exception AttributeError = True"
| "isinstance_Exception OSError = True"
| "isinstance_Exception ConnectionError = True"
| "isinstance_Exception Timeout = True"
| "isinstance_Exception HTTPError = True"
| "isinstance_Exception JSONDecodeError = True"

fun isinstance_RequestException :: "exn \<Rightarrow> bool" where
  "isinstance_RequestException ConnectionError = True"
| "isinstance_RequestException Timeout = True"
| "isinstance_RequestException HTTPError = True"
| "isinstance_RequestException JSONDecodeError = True"
| "isinstance_RequestException KeyError = False"
| "isinstance_RequestException TypeError = False"
| "isinstance_RequestException ValueError = False"
| "isinstance_RequestException OverflowError = False"
| "isinstance_RequestException AttributeError = False"
| "isinstance_RequestException OSError = False"

fun isinstance_ValueError :: "exn \<Rightarrow> bool" where
  "isinstance_ValueError ValueError = True"
| "isinstance_ValueError JSONDecodeError = True"
| "isinstance_ValueError KeyError = False"
| "isinstance_ValueError TypeError = False"
| "isinstance_ValueError OverflowError = False"
| "isinstance_ValueError AttributeError = False"
| "isinstance_ValueError OSError = False"
| "isinstance_ValueError ConnectionError = False"
| "isinstance_ValueError Timeout = False"
| "isinstance_ValueError HTTPError = False"

fun str_exn :: "exn \<Rightarrow> string" where
  "str_exn KeyError = ''KeyError''"
| "str_exn TypeError = ''TypeError''"
| "str_exn ValueError = ''ValueError''"
| "str_exn OverflowError = ''OverflowError''"
| "str_exn AttributeError = ''AttributeError''"
| "str_exn OSError = ''OSError''"
| "str_exn ConnectionError = ''ConnectionError''"
| "str_exn Timeout = ''Timeout''"
| "str_exn HTTPError = ''HTTPError''"
| "str_exn JSONDecodeError = ''JSONDecodeError''"

text \<open>
  What \<^verbatim>\<open>resp.json()\<close> can produce: the values of parsed JSON. The type \<open>'f\<close> stands for
  Python's \<^verbatim>\<open>float\<close>; a JSON object is the list of its items, with distinct keys.
\<close>

datatype 'f pyval =
    PNone
  | PBool bool
  | PInt int
  | PFloat 'f
  | PStr string
  | PList "'f pyval list"
  | PDict "(string \<times> 'f pyval) list"

type_synonym 'f dict = "(string \<times> 'f pyval) list"

text \<open>
  Floating point and the parsing of numerals are Python's, not the repository's: they are
  parameters of the model. \<open>None\<close> means that the builtin raises. So is the text that
  \<^verbatim>\<open>strftime\<close> writes for a year below 1000: \<^verbatim>\<open>%Y\<close> is the C library's, and some pad such a
  year with zeros to four digits (\<^verbatim>\<open>0999\<close>) while others, glibc among them, do not (\<^verbatim>\<open>999\<close>).
\<close>

record 'f builtins =
  int_of_str :: "string \<Rightarrow> int option"      \<comment> \<open>\<^verbatim>\<open>int(s)\<close> for a \<^verbatim>\<open>str\<close>; raises \<^verbatim>\<open>ValueError\<close>\<close>
  int_of_float :: "'f \<Rightarrow> int option"         \<comment> \<open>\<^verbatim>\<open>int(x)\<close> for a \<^verbatim>\<open>float\<close>: truncation; raises on nan and inf\<close>
  float_of_str :: "string \<Rightarrow> 'f option"     \<comment> \<open>\<^verbatim>\<open>float(s)\<close> for a \<^verbatim>\<open>str\<close>; raises \<^verbatim>\<open>ValueError\<close>\<close>
  float_of_int :: "int \<Rightarrow> 'f option"         \<comment> \<open>\<^verbatim>\<open>float(i)\<close> for an \<^verbatim>\<open>int\<close>; raises \<^verbatim>\<open>OverflowError\<close>\<close>
  csv_of_float :: "'f \<Rightarrow> string"              \<comment> \<open>the text \<^verbatim>\<open>to_csv\<close> writes for a float cell\<close>
  json_dumps :: "'f pyval \<Rightarrow> string"          \<comment> \<open>the text \<^verbatim>\<open>json.dump(data, f, indent=2)\<close> writes\<close>
  py_str :: "'f pyval \<Rightarrow> string"              \<comment> \<open>\<^verbatim>\<open>str(v)\<close>, as \<^verbatim>\<open>%s\<close> formats a value\<close>
  year_below_1000 :: "int \<Rightarrow> string"         \<comment> \<open>what \<^verbatim>\<open>%Y\<close> writes for a year from 1 to 999\<close>

text \<open>\<^verbatim>\<open>obj[key]\<close> with a string key: only a dict can be subscripted by a string.\<close>

fun getitem :: "'f pyval \<Rightarrow> string \<Rightarrow> exn + 'f pyval" where
  "getitem (PDict kvs) k = (case map_of kvs k of None \<Rightarrow> Inl KeyError | Some v \<Rightarrow> Inr v)"
| "getitem PNone k = Inl TypeError"
| "getitem (PBool b) k = Inl TypeError"
| "getitem (PInt i) k = Inl TypeError"
| "getitem (PFloat x) k = Inl TypeError"
| "getitem (PStr s) k = Inl TypeError"
| "getitem (PList xs) k = Inl TypeError"

text \<open>\<^verbatim>\<open>int(v)\<close>.\<close>

fun py_int :: "'f builtins \<Rightarrow> 'f pyval \<Rightarrow> exn + int" where
  "py_int B (PInt i) = Inr i"
| "py_int B (PBool b) = Inr (if b then 1 else 0)"
| "py_int B (PFloat x) = (case int_of_float B x of None \<Rightarrow> Inl ValueError | Some i \<Rightarrow> Inr i)"
| "py_int B (PStr s) = (case int_of_str B s of None \<Rightarrow> Inl ValueError | Some i \<Rightarrow> Inr i)"
| "py_int B PNone = Inl TypeError"
| "py_int B (PList xs) = Inl TypeError"
| "py_int B (PDict kvs) = Inl TypeError"

text \<open>\<^verbatim>\<open>float(v)\<close>.\<close>

fun py_float :: "'f builtins \<Rightarrow> 'f pyval \<Rightarrow> exn + 'f" where
  "py_float B (PFloat x) = Inr x"
| "py_float B (PInt i) = (case float_of_int B i of None \<Rightarrow> Inl OverflowError | Some x \<Rightarrow> Inr x)"
| "py_float B (PBool b) =
     (case float_of_int B (if b then 1 else 0) of None \<Rightarrow> Inl OverflowError | Some x \<Rightarrow> Inr x)"
| "py_float B (PStr s) = (case float_of_str B s of None \<Rightarrow> Inl ValueError | Some x \<Rightarrow> Inr x)"
| "py_float B PNone = Inl TypeError"
| "py_float B (PList xs) = Inl TypeError"
| "py_float B (PDict kvs) = Inl TypeError"

text \<open>Sequencing of statements that may raise: the first exception ends the block.\<close>

definition bindE :: "exn + 'a \<Rightarrow> ('a \<Rightarrow> exn + 'b) \<Rightarrow> exn + 'b" where
  "bindE m f = (case m of Inl e \<Rightarrow> Inl e | Inr x \<Rightarrow> f x)"

section \<open>UTC date and time\<close>

record datetime =
  year :: int
  month :: int
  day :: int
  hour :: int
  minute :: int
  second :: int

text \<open>
  The proleptic Gregorian calendar, as CPython's \<^verbatim>\<open>datetime\<close> module computes it
  (\<^verbatim>\<open>_ord2ymd\<close>): day 1 is 0001-01-01.
\<close>

definition DI400Y :: int where "DI400Y = 146097"
definition DI100Y :: int where "DI100Y = 36524"
definition DI4Y :: int where "DI4Y = 1461"

definition DAYS_IN_MONTH :: "int list" where
  "DAYS_IN_MONTH = [-1, 31, 28, 31, 30, 31, 30, 31, 31, 30, 31, 30, 31]"

definition DAYS_BEFORE_MONTH :: "int list" where
  "DAYS_BEFORE_MONTH = [-1, 0, 31, 59, 90, 120, 151, 181, 212, 243, 273, 304, 334]"

text \<open>
  The tail of \<^verbatim>\<open>_ord2ymd\<close>: month and day of the \<open>n\<close>-th day (from 0) of a year, by an
  estimate of the month that is exact or one too large.
\<close>

definition month_day :: "bool \<Rightarrow> int \<Rightarrow> int \<times> int" where
  "month_day leapyear n =
     (let m = (n + 50) div 32;
          preceding = DAYS_BEFORE_MONTH ! nat m + (if 2 < m \<and> leapyear then 1 else 0)
      in if n < preceding
         then (m - 1,
               n - (preceding - (DAYS_IN_MONTH ! nat (m - 1)
                                  + (if m - 1 = 2 \<and> leapyear then 1 else 0))) + 1)
         else (m, n - preceding + 1))"

definition ord2ymd :: "int \<Rightarrow> int \<times> int \<times> int" where
  "ord2ymd ordinal =
     (let n0 = ordinal - 1;
          n400 = n0 div DI400Y; na = n0 mod DI400Y;
          n100 = na div DI100Y; nb = na mod DI100Y;
          n4 = nb div DI4Y; nc = nb mod DI4Y;
          n1 = nc div 365; n = nc mod 365;
          y = n400 * 400 + 1 + n100 * 100 + n4 * 4 + n1
      in if n1 = 4 \<or> n100 = 4 then (y - 1, 12, 31)
         else (y, month_day (n1 = 3 \<and> (n4 \<noteq> 24 \<or> n100 = 3)) n))"

text \<open>
  \<^verbatim>\<open>datetime.fromtimestamp(ts, tz=timezone.utc)\<close>: the broken-down UTC time of \<open>ts\<close> seconds
  after 1970-01-01 (ordinal 719163), and an exception when the year is not one a
  \<^verbatim>\<open>datetime\<close> can hold (\<^verbatim>\<open>MINYEAR = 1\<close>, \<^verbatim>\<open>MAXYEAR = 9999\<close>). CPython raises \<^verbatim>\<open>ValueError\<close>
  there, or \<^verbatim>\<open>OverflowError\<close> or \<^verbatim>\<open>OSError\<close> when the platform's \<^verbatim>\<open>time_t\<close> or \<^verbatim>\<open>gmtime\<close>
  gives up first; the model names the first. Negative timestamps are converted, as on
  POSIX systems.
\<close>

definition fromtimestamp_utc :: "int \<Rightarrow> exn + datetime" where
  "fromtimestamp_utc ts =
     (let days = ts div 86400; secs = ts mod 86400;
          (y, m, d) = ord2ymd (days + 719163)
      in if y < 1 \<or> 9999 < y then Inl ValueError
         else Inr \<lparr>year = y, month = m, day = d,
                   hour = secs div 3600, minute = (secs mod 3600) div 60, second = secs mod 60\<rparr>)"

text \<open>Decimal numerals, as \<^verbatim>\<open>str(int)\<close> and the \<^verbatim>\<open>%d\<close> conversions write them.\<close>

definition digit_char :: "nat \<Rightarrow> char" where
  "digit_char d = ''0123456789'' ! d"

fun str_nat :: "nat \<Rightarrow> string" where
  "str_nat n = (if n < 10 then [digit_char n] else str_nat (n div 10) @ [digit_char (n mod 10)])"

declare str_nat.simps [simp del]

definition str_int :: "int \<Rightarrow> string" where
  "str_int i = (if i < 0 then CHR ''-'' # str_nat (nat (- i)) else str_nat (nat i))"

definition zero_pad :: "nat \<Rightarrow> int \<Rightarrow> string" where
  "zero_pad w v = (let s = str_int v in replicate (w - length s) CHR ''0'' @ s)"

text \<open>
  \<^verbatim>\<open>dt.strftime("%Y-%m-%d %H:%M:%S")\<close>. From the year 1000 on \<^verbatim>\<open>%Y\<close> is the year's decimal
  numeral, four digits with padding or without; below, it is what the platform writes.
  The other fields are padded to two digits everywhere.
\<close>

definition strftime :: "'f builtins \<Rightarrow> datetime \<Rightarrow> string" where
  "strftime B dt =
     (if 1000 \<le> year dt then zero_pad 4 (year dt) else year_below_1000 B (year dt))
     @ ''-'' @ zero_pad 2 (month dt) @ ''-'' @ zero_pad 2 (day dt) @ '' ''
     @ zero_pad 2 (hour dt) @ '':'' @ zero_pad 2 (minute dt) @ '':'' @ zero_pad 2 (second dt)"

section \<open>The world the pipeline runs in\<close>

datatype level = INFO | WARNING | ERROR

text \<open>A log record: level, format string, and the arguments as \<^verbatim>\<open>%s\<close> and \<^verbatim>\<open>%d\<close> render them.\<close>

type_synonym log_entry = "level \<times> string \<times> string list"

text \<open>
  What the endpoint does when asked: no connection, no answer within the timeout, or a
  response with a status code and a body that parses as JSON (\<open>Some\<close>) or does not.
\<close>

datatype 'f http_outcome = NoConnection | TimedOut | Response nat "'f pyval option"

text \<open>
  How writing to a path goes wrong: \<^verbatim>\<open>open\<close> raises (no permission, a directory, a missing
  parent), or the write raises after some characters reached the file (a full disk).
\<close>

datatype fault = OpenFails | WriteFails nat

record 'f world =
  http :: "'f http_outcome"
  files :: "string \<Rightarrow> string option"
  faults :: "string \<Rightarrow> fault option"
  requested :: "string list"
  log :: "log_entry list"

definition logger :: "level \<Rightarrow> string \<Rightarrow> string list \<Rightarrow> 'f world \<Rightarrow> 'f world" where
  "logger lvl fmt args w = w\<lparr>log := log w @ [(lvl, fmt, args)]\<rparr>"

text \<open>\<^verbatim>\<open>os.path.exists\<close>. It never raises.\<close>

definition path_exists :: "'f world \<Rightarrow> string \<Rightarrow> bool" where
  "path_exists w path = (files w path \<noteq> None)"

text \<open>
  Opening \<open>path\<close> in mode \<^verbatim>\<open>"a"\<close> (\<open>appending = True\<close>) or \<^verbatim>\<open>"w"\<close> and writing \<open>text\<close>. Mode
  \<^verbatim>\<open>"w"\<close> empties the file when it opens it; mode \<^verbatim>\<open>"a"\<close> keeps what is there.
\<close>

definition write_file :: "bool \<Rightarrow> string \<Rightarrow> string \<Rightarrow> 'f world \<Rightarrow> (exn + unit) \<times> 'f world" where
  "write_file appending path text w =
     (let old = (if appending then (case files w path of None \<Rightarrow> [] | Some c \<Rightarrow> c) else [])
      in case faults w path of
           Some OpenFails \<Rightarrow> (Inl OSError, w)
         | Some (WriteFails k) \<Rightarrow> (Inl OSError, w\<lparr>files := (files w)(path \<mapsto> old @ take k text)\<rparr>)
         | None \<Rightarrow> (Inr (), w\<lparr>files := (files w)(path \<mapsto> old @ text)\<rparr>))"

section \<open>Extract\<close>

definition url :: string where
  "url = ''http://api.open-notify.org/iss-now.json''"

text \<open>\<^verbatim>\<open>requests.get(url, timeout=10)\<close>: one request, recorded in \<open>requested\<close>.\<close>

definition requests_get :: "string \<Rightarrow> 'f world \<Rightarrow> (exn + nat \<times> 'f pyval option) \<times> 'f world" where
  "requests_get u w =
     (let w' = w\<lparr>requested := requested w @ [u]\<rparr>
      in case http w of
           NoConnection \<Rightarrow> (Inl ConnectionError, w')
         | TimedOut \<Rightarrow> (Inl Timeout, w')
         | Response status body \<Rightarrow> (Inr (status, body), w'))"

text \<open>\<^verbatim>\<open>resp.raise_for_status()\<close> raises for the 4xx and 5xx codes.\<close>

definition raise_for_status :: "nat \<Rightarrow> exn + unit" where
  "raise_for_status status = (if 400 \<le> status \<and> status < 600 then Inl HTTPError else Inr ())"

text \<open>
  \<^verbatim>\<open>resp.json()\<close>: a body that is not JSON raises the library's \<^verbatim>\<open>JSONDecodeError\<close> (a plain
  \<^verbatim>\<open>ValueError\<close> in older versions, which the second clause catches with the same result).
  A body nested too deeply for the parser is outside the model.
\<close>

definition resp_json :: "'f pyval option \<Rightarrow> exn + 'f pyval" where
  "resp_json body = (case body of None \<Rightarrow> Inl JSONDecodeError | Some data \<Rightarrow> Inr data)"

definition dict_get :: "'f dict \<Rightarrow> string \<Rightarrow> 'f pyval" where
  "dict_get kvs k = (case map_of kvs k of None \<Rightarrow> PNone | Some v \<Rightarrow> v)"

text \<open>
  The body of the \<^verbatim>\<open>try\<close> in \<^verbatim>\<open>extract\<close>. \<^verbatim>\<open>data.get("message")\<close> needs a dict: no other
  JSON value has an attribute \<^verbatim>\<open>get\<close>, and the lookup raises \<^verbatim>\<open>AttributeError\<close>.
\<close>

definition extract_try :: "'f builtins \<Rightarrow> 'f world \<Rightarrow> (exn + 'f dict) \<times> 'f world" where
  "extract_try B w =
     (case requests_get url w of
        (Inl e, w1) \<Rightarrow> (Inl e, w1)
      | (Inr (status, body), w1) \<Rightarrow>
          (case raise_for_status status of
             Inl e \<Rightarrow> (Inl e, w1)
           | Inr _ \<Rightarrow>
               (case resp_json body of
                  Inl e \<Rightarrow> (Inl e, w1)
                | Inr data \<Rightarrow>
                    (case write_file False ''iss_raw.json'' (json_dumps B data) w1 of
                       (Inl e, w2) \<Rightarrow> (Inl e, w2)
                     | (Inr _, w2) \<Rightarrow>
                         (case data of
                            PDict kvs \<Rightarrow>
                              (Inr kvs,
                               logger INFO ''Extract: received message=%s''
                                 [py_str B (dict_get kvs ''message'')] w2)
                          | _ \<Rightarrow> (Inl AttributeError, w2))))))"

text \<open>
  \<^verbatim>\<open>extract\<close>: the two \<^verbatim>\<open>except\<close> clauses, in the source's order. An exception of any
  other class leaves the function.
\<close>

definition "extract" :: "'f builtins \<Rightarrow> 'f world \<Rightarrow> (exn + 'f dict) \<times> 'f world" where
  "extract B w =
     (let w0 = logger INFO ''Extract: requesting %s'' [url] w
      in case extract_try B w0 of
           (Inr data, w1) \<Rightarrow> (Inr data, w1)
         | (Inl e, w1) \<Rightarrow>
             if isinstance_RequestException e
             then (Inr [], logger ERROR ''Extract: request failed: %s'' [str_exn e] w1)
             else if isinstance_ValueError e
             then (Inr [], logger ERROR ''Extract: JSON parse failed: %s'' [str_exn e] w1)
             else (Inl e, w1))"

section \<open>Transform\<close>

record 'f row =
  timestamp_unix :: int
  timestamp_utc :: string
  latitude :: 'f
  longitude :: 'f

text \<open>A data frame of the pipeline: its rows. \<^verbatim>\<open>pd.DataFrame()\<close> is the frame with none.\<close>

type_synonym 'f dataframe = "'f row list"

text \<open>The statements of the \<^verbatim>\<open>try\<close> in \<^verbatim>\<open>transform\<close>, up to the row.\<close>

definition transform_try :: "'f builtins \<Rightarrow> 'f dict \<Rightarrow> exn + 'f row" where
  "transform_try B record =
     bindE (getitem (PDict record) ''timestamp'') (\<lambda>tv.
     bindE (py_int B tv) (\<lambda>ts.
     bindE (getitem (PDict record) ''iss_position'') (\<lambda>pos.
     bindE (getitem pos ''latitude'') (\<lambda>latv.
     bindE (py_float B latv) (\<lambda>lat.
     bindE (getitem pos ''longitude'') (\<lambda>lonv.
     bindE (py_float B lonv) (\<lambda>lon.
     bindE (fromtimestamp_utc ts) (\<lambda>dt_utc.
       Inr \<lparr>timestamp_unix = ts, timestamp_utc = strftime B dt_utc,
            latitude = lat, longitude = lon\<rparr>))))))))"

definition transform :: "'f builtins \<Rightarrow> 'f dict \<Rightarrow> 'f world \<Rightarrow> (exn + 'f dataframe) \<times> 'f world" where
  "transform B record w =
     (let w0 = logger INFO ''Transform: converting record to tabular format'' [] w
      in if record = []
         then (Inr [], logger WARNING ''Transform: empty record; returning empty DataFrame'' [] w0)
         else case transform_try B record of
                Inr r \<Rightarrow> (Inr [r], logger INFO ''Transform: produced 1 row'' [] w0)
              | Inl e \<Rightarrow>
                  if isinstance_Exception e
                  then (Inr [], logger ERROR ''Transform: failed: %s'' [str_exn e] w0)
                  else (Inl e, w0))"

text \<open>
  The three fields \<^verbatim>\<open>transform\<close> reads, each with its coercion: \<open>Inl\<close> when the field is
  missing (or what should hold it is not a dict) or cannot be coerced.
\<close>

definition field_timestamp :: "'f builtins \<Rightarrow> 'f dict \<Rightarrow> exn + int" where
  "field_timestamp B record = bindE (getitem (PDict record) ''timestamp'') (py_int B)"

definition field_position :: "'f builtins \<Rightarrow> 'f dict \<Rightarrow> string \<Rightarrow> exn + 'f" where
  "field_position B record k =
     bindE (getitem (PDict record) ''iss_position'') (\<lambda>pos. bindE (getitem pos k) (py_float B))"

section \<open>Load\<close>

definition LF :: char where "LF = CHR 0x0A"
definition CR :: char where "CR = CHR 0x0D"

definition csv_header :: string where
  "csv_header = ''timestamp_unix,timestamp_utc,latitude,longitude''"

text \<open>
  A field as the CSV writer emits it (minimal quoting): quoted, with quotes doubled, when
  it holds a comma, a quote or a line break.
\<close>

definition needs_quote :: "string \<Rightarrow> bool" where
  "needs_quote s = list_ex (\<lambda>c. c = CHR '','' \<or> c = CHR 0x22 \<or> c = LF \<or> c = CR) s"

definition csv_field :: "string \<Rightarrow> string" where
  "csv_field s =
     (if needs_quote s
      then [CHR 0x22] @ concat (map (\<lambda>c. if c = CHR 0x22 then [c, c] else [c]) s) @ [CHR 0x22]
      else s)"

definition csv_line :: "'f builtins \<Rightarrow> 'f row \<Rightarrow> string" where
  "csv_line B r =
     str_int (timestamp_unix r) @ '','' @ csv_field (timestamp_utc r) @ '',''
     @ csv_field (csv_of_float B (latitude r)) @ '','' @ csv_field (csv_of_float B (longitude r))"

text \<open>The text \<^verbatim>\<open>df.to_csv(..., header=h, index=False)\<close> writes for a frame with rows.\<close>

definition to_csv_text :: "'f builtins \<Rightarrow> bool \<Rightarrow> 'f dataframe \<Rightarrow> string" where
  "to_csv_text B h df =
     (if h then csv_header @ [LF] else []) @ concat (map (\<lambda>r. csv_line B r @ [LF]) df)"

text \<open>\<^verbatim>\<open>load\<close>; \<open>None\<close> is Python's \<^verbatim>\<open>None\<close> passed for the frame.\<close>

definition load :: "'f builtins \<Rightarrow> 'f dataframe option \<Rightarrow> string \<Rightarrow> 'f world \<Rightarrow> (exn + unit) \<times> 'f world" where
  "load B df csv_file w =
     (if df = None \<or> the df = []
      then (Inr (), logger WARNING ''Load: nothing to write (empty DataFrame)'' [] w)
      else
        let file_exists = path_exists w csv_file
        in case write_file True csv_file (to_csv_text B (\<not> file_exists) (the df)) w of
             (Inr _, w1) \<Rightarrow>
               (Inr (), logger INFO ''Load: appended %d row(s) to %s''
                          [str_nat (length (the df)), csv_file] w1)
           | (Inl e, w1) \<Rightarrow>
               if isinstance_Exception e
               then (Inr (), logger ERROR ''Load: failed: %s'' [str_exn e] w1)
               else (Inl e, w1))"

section \<open>The orchestrator\<close>

text \<open>
  \<^verbatim>\<open>main\<close>, with \<^verbatim>\<open>sys.argv\<close> as its argument: the script's name, then the positional
  arguments. An exception that leaves a stage leaves \<^verbatim>\<open>main\<close>: it has no handler.
\<close>

definition main :: "'f builtins \<Rightarrow> string list \<Rightarrow> 'f world \<Rightarrow> (exn + int) \<times> 'f world" where
  "main B argv w =
     (if length argv \<noteq> 2
      then (Inr 2, logger ERROR ''Usage: python3 iss.py <output_csv_file>'' [] w)
      else
        let csv_file = argv ! 1;
            w0 = logger INFO ''Starting ISS ETL; output=%s'' [csv_file] w
        in case extract B w0 of
             (Inl e, w1) \<Rightarrow> (Inl e, w1)
           | (Inr record, w1) \<Rightarrow>
               (case transform B record w1 of
                  (Inl e, w2) \<Rightarrow> (Inl e, w2)
                | (Inr df, w2) \<Rightarrow>
                    (case load B (Some df) csv_file w2 of
                       (Inl e, w3) \<Rightarrow> (Inl e, w3)
                     | (Inr _, w3) \<Rightarrow> (Inr 0, logger INFO ''Done.'' [] w3))))"

section \<open>Reading a CSV log\<close>

text \<open>The lines of a text, as a reader that splits at line feeds sees them.\<close>

fun lines_from :: "string \<Rightarrow> string \<Rightarrow> string list" where
  "lines_from cur [] = (if cur = [] then [] else [cur])"
| "lines_from cur (c # cs) =
     (if c = LF then cur # lines_from [] cs else lines_from (cur @ [c]) cs)"

definition file_lines :: "string \<Rightarrow> string list" where
  "file_lines text = lines_from [] text"

definition header_lines :: "string \<Rightarrow> nat" where
  "header_lines text = length (filter (\<lambda>l. l = csv_header) (file_lines text))"

definition data_rows :: "string \<Rightarrow> nat" where
  "data_rows text = length (filter (\<lambda>l. l \<noteq> csv_header) (file_lines text))"

section \<open>The shape of a rendered timestamp\<close>

definition is_digit :: "char \<Rightarrow> bool" where
  "is_digit c = (c \<in> set ''0123456789'')"

text \<open>A string fits a pattern when it has a digit wherever the pattern has \<open>d\<close> and the
  pattern's own character everywhere else.\<close>

fun fits :: "string \<Rightarrow> string \<Rightarrow> bool" where
  "fits [] [] = True"
| "fits (p # ps) (c # cs) = ((if p = CHR ''d'' then is_digit c else c = p) \<and> fits ps cs)"
| "fits [] (c # cs) = False"
| "fits (p # ps) [] = False"

definition timestamp_form :: "string \<Rightarrow> bool" where
  "timestamp_form s = fits ''dddd-dd-dd dd:dd:dd'' s"

section \<open>A concrete instance for examples\<close>

text \<open>
  Floats as rationals, on the literals of the examples: \<^verbatim>\<open>10.5\<close> and \<^verbatim>\<open>-20.25\<close> are
  binary fractions, which a double holds exactly.
\<close>

definition example_builtins :: "rat builtins" where
  "example_builtins =
     \<lparr>int_of_str = (\<lambda>s. if s = ''1700000000'' then Some 1700000000 else None),
      int_of_float = (\<lambda>x. Some (if 0 \<le> x then \<lfloor>x\<rfloor> else \<lceil>x\<rceil>)),
      float_of_str = map_of [(''10.5'', 21 / 2), (''-20.25'', - (81 / 4))],
      float_of_int = (\<lambda>i. Some (of_int i)),
      csv_of_float = (\<lambda>x. if x = 21 / 2 then ''10.5'' else if x = - (81 / 4) then ''-20.25'' else ''0.0''),
      json_dumps = (\<lambda>v. ''{}''),
      py_str = (\<lambda>v. ''success''),
      year_below_1000 = str_int\<rparr>"

definition example_record :: "int \<Rightarrow> rat dict" where
  "example_record ts =
     [(''timestamp'', PInt ts),
      (''iss_position'', PDict [(''latitude'', PStr ''10.5''), (''longitude'', PStr ''-20.25'')])]"

definition example_world :: "rat world" where
  "example_world =
     \<lparr>http = Response 200 (Some (PDict ((''message'', PStr ''success'') # example_record 1700000000))),
      files = Map.empty, faults = Map.empty, requested = [], log = []\<rparr>"

definition example_row :: "rat row" where
  "example_row =
     \<lparr>timestamp_unix = 1700000000, timestamp_utc = ''2023-11-14 22:13:20'',
      latitude = 21 / 2, longitude = - (81 / 4)\<rparr>"

section \<open>Basic facts\<close>

lemma isinstance_Exception_all: "isinstance_Exception e"
  by (cases e) simp_all

lemma files_logger: "files (logger lvl fmt args w) = files w"
  by (simp add: logger_def)

lemma requested_logger: "requested (logger lvl fmt args w) = requested w"
  by (simp add: logger_def)

lemma log_logger: "log (logger lvl fmt args w) = log w @ [(lvl, fmt, args)]"
  by (simp add: logger_def)

section \<open>Calendar arithmetic\<close>

lemma divmod_facts:
  fixes a b :: int
  assumes "0 < b" "0 \<le> a"
  shows "a = b * (a div b) + a mod b" "0 \<le> a div b" "0 \<le> a mod b" "a mod b < b"
  using assms by (simp_all add: pos_imp_zdiv_nonneg_iff)

lemma ord2ymd_year_range:
  assumes "1 \<le> n" and "n \<le> 3652059"
  shows "1 \<le> fst (ord2ymd n) \<and> fst (ord2ymd n) \<le> 9999"
proof -
  define n0 where "n0 = n - 1"
  define a where "a = n0 div 146097"
  define na where "na = n0 mod 146097"
  define b where "b = na div 36524"
  define nb where "nb = na mod 36524"
  define c where "c = nb div 1461"
  define nc where "nc = nb mod 1461"
  define d where "d = nc div 365"
  define r where "r = nc mod 365"
  have n0: "0 \<le> n0" "n0 \<le> 3652058" using assms by (simp_all add: n0_def)
  have A: "n0 = 146097 * a + na" "0 \<le> a" "0 \<le> na" "na < 146097"
    unfolding a_def na_def using divmod_facts [of 146097 n0] n0 by simp_all
  have B: "na = 36524 * b + nb" "0 \<le> b" "0 \<le> nb" "nb < 36524"
    unfolding b_def nb_def using divmod_facts [of 36524 na] A by simp_all
  have C: "nb = 1461 * c + nc" "0 \<le> c" "0 \<le> nc" "nc < 1461"
    unfolding c_def nc_def using divmod_facts [of 1461 nb] B by simp_all
  have D: "nc = 365 * d + r" "0 \<le> d" "0 \<le> r" "r < 365"
    unfolding d_def r_def using divmod_facts [of 365 nc] C by simp_all
  have fst_eq: "fst (ord2ymd n)
      = (if d = 4 \<or> b = 4 then a * 400 + b * 100 + c * 4 + d else a * 400 + 1 + b * 100 + c * 4 + d)"
    unfolding ord2ymd_def Let_def DI400Y_def DI100Y_def DI4Y_def n0_def a_def na_def
        b_def nb_def c_def nc_def d_def by simp
  have b4: "b \<le> 4" using A B by linarith
  have c24: "c \<le> 24" using B C by linarith
  have d4: "d \<le> 4" using C D by linarith
  show ?thesis
  proof (cases "b = 4")
    case True
    have "c = 0" using True A B C by linarith
    moreover have "d = 0" using True A B C D by linarith
    moreover have "a \<le> 23" using True A B n0 by linarith
    ultimately show ?thesis using True A by (simp add: fst_eq)
  next
    case b: False
    then have b3: "b \<le> 3" using b4 by simp
    show ?thesis
    proof (cases "d = 4")
      case True
      have "a * 400 + b * 100 + c * 4 + d \<le> 9999"
        using True A B C D n0 b3 c24 by linarith
      then show ?thesis using True A B C by (simp add: fst_eq)
    next
      case False
      then have d3: "d \<le> 3" using d4 by simp
      have "a * 400 + b * 100 + c * 4 + d \<le> 9998"
        using A B C D n0 b3 c24 d3 by linarith
      then show ?thesis using False b A B C D by (simp add: fst_eq)
    qed
  qed
qed

lemma fromtimestamp_utc_in_range:
  assumes "- 62135596800 \<le> ts" and "ts \<le> 253402300799"
  shows "\<exists>dt. fromtimestamp_utc ts = Inr dt"
proof -
  have "- 719162 \<le> ts div 86400" using assms(1) by linarith
  moreover have "ts div 86400 \<le> 2932896" using assms(2) by linarith
  ultimately have "1 \<le> ts div 86400 + 719163" "ts div 86400 + 719163 \<le> 3652059" by simp_all
  from ord2ymd_year_range [OF this]
  show ?thesis unfolding fromtimestamp_utc_def Let_def split_beta by simp
qed

lemma ord2ymd_year_1000:
  assumes "364878 \<le> n"
  shows "1000 \<le> fst (ord2ymd n)"
proof -
  define n0 where "n0 = n - 1"
  define a where "a = n0 div 146097"
  define na where "na = n0 mod 146097"
  define b where "b = na div 36524"
  define nb where "nb = na mod 36524"
  define c where "c = nb div 1461"
  define nc where "nc = nb mod 1461"
  define d where "d = nc div 365"
  define r where "r = nc mod 365"
  have n0: "364877 \<le> n0" using assms by (simp add: n0_def)
  have A: "n0 = 146097 * a + na" "0 \<le> a" "0 \<le> na" "na < 146097"
    unfolding a_def na_def using divmod_facts [of 146097 n0] n0 by simp_all
  have B: "na = 36524 * b + nb" "0 \<le> b" "0 \<le> nb" "nb < 36524"
    unfolding b_def nb_def using divmod_facts [of 36524 na] A by simp_all
  have C: "nb = 1461 * c + nc" "0 \<le> c" "0 \<le> nc" "nc < 1461"
    unfolding c_def nc_def using divmod_facts [of 1461 nb] B by simp_all
  have D: "nc = 365 * d + r" "0 \<le> d" "0 \<le> r" "r < 365"
    unfolding d_def r_def using divmod_facts [of 365 nc] C by simp_all
  have fst_eq: "fst (ord2ymd n)
      = (if d = 4 \<or> b = 4 then a * 400 + b * 100 + c * 4 + d else a * 400 + 1 + b * 100 + c * 4 + d)"
    unfolding ord2ymd_def Let_def DI400Y_def DI100Y_def DI4Y_def n0_def a_def na_def
        b_def nb_def c_def nc_def d_def by simp
  have b4: "b \<le> 4" using A B by linarith
  have c24: "c \<le> 24" using B C by linarith
  have d4: "d \<le> 4" using C D by linarith
  show ?thesis
  proof (cases "b = 4")
    case True
    have "2 \<le> a" using True A B n0 by linarith
    then show ?thesis using True C D by (simp add: fst_eq)
  next
    case b: False
    then have b3: "b \<le> 3" using b4 by simp
    show ?thesis
    proof (cases "d = 4")
      case True
      have a2: "2 \<le> a" using True A B C D n0 b3 c24 by linarith
      have "1000 \<le> a * 400 + b * 100 + c * 4 + d"
      proof (cases "a = 2")
        case False
        then have "3 \<le> a" using a2 by simp
        then show ?thesis using True B C by linarith
      next
        case a: True
        have b1: "1 \<le> b" using a True A B C D n0 c24 by linarith
        show ?thesis
        proof (cases "b = 1")
          case False
          then have "2 \<le> b" using b1 by simp
          then show ?thesis using a True C by linarith
        next
          case b': True
          have "24 \<le> c" using a b' True A B C D n0 by linarith
          then show ?thesis using a b' True by linarith
        qed
      qed
      then show ?thesis using True by (simp add: fst_eq)
    next
      case False
      then have d3: "d \<le> 3" using d4 by simp
      have "999 \<le> a * 400 + b * 100 + c * 4 + d"
        using A B C D n0 b3 c24 d3 by linarith
      then show ?thesis using False b by (simp add: fst_eq)
    qed
  qed
qed

lemma fromtimestamp_utc_year_1000:
  assumes "fromtimestamp_utc ts = Inr dt" and "- 30610224000 \<le> ts"
  shows "1000 \<le> year dt"
proof -
  obtain y m d where ymd: "ord2ymd (ts div 86400 + 719163) = (y, m, d)"
    by (cases "ord2ymd (ts div 86400 + 719163)") auto
  have "- 354285 \<le> ts div 86400" using assms(2) by linarith
  then have "364878 \<le> ts div 86400 + 719163" by simp
  from ord2ymd_year_1000 [OF this] have y: "1000 \<le> y" by (simp add: ymd)
  have eq: "fromtimestamp_utc ts =
      (if y < 1 \<or> 9999 < y then Inl ValueError
       else Inr \<lparr>year = y, month = m, day = d, hour = ts mod 86400 div 3600,
                 minute = ts mod 86400 mod 3600 div 60, second = ts mod 86400 mod 60\<rparr>)"
    by (simp only: fromtimestamp_utc_def Let_def ymd prod.case)
  have "year dt = y" using assms(1) unfolding eq by (cases "y < 1 \<or> 9999 < y") auto
  with y show ?thesis by simp
qed

lemma month_day_range:
  assumes "0 \<le> n" and "n \<le> 364"
  shows "1 \<le> fst (month_day leap n) \<and> fst (month_day leap n) \<le> 12
         \<and> 1 \<le> snd (month_day leap n) \<and> snd (month_day leap n) \<le> 31"
proof -
  define m where "m = (n + 50) div 32"
  have m: "32 * m \<le> n + 50" "n + 50 < 32 * m + 32" unfolding m_def by linarith+
  then have "1 \<le> m" "m \<le> 12" using assms by linarith+
  then have "m = 1 \<or> m = 2 \<or> m = 3 \<or> m = 4 \<or> m = 5 \<or> m = 6
    \<or> m = 7 \<or> m = 8 \<or> m = 9 \<or> m = 10 \<or> m = 11 \<or> m = 12"
    by arith
  then consider "m = 1" | "m = 2" | "m = 3" | "m = 4" | "m = 5" | "m = 6"
    | "m = 7" | "m = 8" | "m = 9" | "m = 10" | "m = 11" | "m = 12"
    by blast
  then show ?thesis
  proof cases
    case 1 then show ?thesis using m assms
      unfolding month_day_def Let_def m_def [symmetric] DAYS_BEFORE_MONTH_def DAYS_IN_MONTH_def by simp
  next
    case 2 then show ?thesis using m assms
      unfolding month_day_def Let_def m_def [symmetric] DAYS_BEFORE_MONTH_def DAYS_IN_MONTH_def by simp
  next
    case 3 then show ?thesis using m assms
      unfolding month_day_def Let_def m_def [symmetric] DAYS_BEFORE_MONTH_def DAYS_IN_MONTH_def by simp
  next
    case 4 then show ?thesis using m assms
      unfolding month_day_def Let_def m_def [symmetric] DAYS_BEFORE_MONTH_def DAYS_IN_MONTH_def by simp
  next
    case 5 then show ?thesis using m assms
      unfolding month_day_def Let_def m_def [symmetric] DAYS_BEFORE_MONTH_def DAYS_IN_MONTH_def by simp
  next
    case 6 then show ?thesis using m assms
      unfolding month_day_def Let_def m_def [symmetric] DAYS_BEFORE_MONTH_def DAYS_IN_MONTH_def by simp
  next
    case 7 then show ?thesis using m assms
      unfolding month_day_def Let_def m_def [symmetric] DAYS_BEFORE_MONTH_def DAYS_IN_MONTH_def by simp
  next
    case 8 then show ?thesis using m assms
      unfolding month_day_def Let_def m_def [symmetric] DAYS_BEFORE_MONTH_def DAYS_IN_MONTH_def by simp
  next
    case 9 then show ?thesis using m assms
      unfolding month_day_def Let_def m_def [symmetric] DAYS_BEFORE_MONTH_def DAYS_IN_MONTH_def by simp
  next
    case 10 then show ?thesis using m assms
      unfolding month_day_def Let_def m_def [symmetric] DAYS_BEFORE_MONTH_def DAYS_IN_MONTH_def by simp
  next
    case 11 then show ?thesis using m assms
      unfolding month_day_def Let_def m_def [symmetric] DAYS_BEFORE_MONTH_def DAYS_IN_MONTH_def by simp
  next
    case 12 then show ?thesis using m assms
      unfolding month_day_def Let_def m_def [symmetric] DAYS_BEFORE_MONTH_def DAYS_IN_MONTH_def by simp
  qed
qed

section \<open>Decimal numerals and patterns\<close>

lemma is_digit_digit_char: "d < 10 \<Longrightarrow> is_digit (digit_char d)"
  unfolding is_digit_def digit_char_def by (rule nth_mem) simp

lemma str_nat_digits: "list_all is_digit (str_nat n)"
proof (induction n rule: str_nat.induct)
  case (1 n)
  show ?case
  proof (cases "n < 10")
    case True
    then show ?thesis by (subst str_nat.simps) (simp add: is_digit_digit_char)
  next
    case False
    with 1 show ?thesis by (subst str_nat.simps) (simp add: is_digit_digit_char)
  qed
qed

lemma str_nat_nonempty: "str_nat n \<noteq> []"
  by (subst str_nat.simps) simp

lemma length_str_nat: "n < 10 ^ Suc k \<Longrightarrow> length (str_nat n) \<le> Suc k"
proof (induction k arbitrary: n)
  case 0
  then show ?case by (subst str_nat.simps) simp
next
  case (Suc k)
  show ?case
  proof (cases "n < 10")
    case True
    then show ?thesis by (subst str_nat.simps) simp
  next
    case False
    have "n div 10 < 10 ^ Suc k" using Suc.prems by (simp add: less_mult_imp_div_less mult.commute)
    from Suc.IH [OF this] False show ?thesis by (subst str_nat.simps) simp
  qed
qed

lemma fits_append:
  "length p1 = length s1 \<Longrightarrow> fits (p1 @ p2) (s1 @ s2) = (fits p1 s1 \<and> fits p2 s2)"
  by (induction p1 s1 rule: list_induct2) auto

lemma fits_digits: "fits (replicate k CHR ''d'') s = (length s = k \<and> list_all is_digit s)"
proof (induction k arbitrary: s)
  case 0
  then show ?case by (cases s) simp_all
next
  case (Suc k)
  then show ?case by (cases s) auto
qed

lemma zero_pad_digits:
  assumes "0 \<le> v" and "v < 10 ^ Suc k"
  shows "length (zero_pad (Suc k) v) = Suc k \<and> list_all is_digit (zero_pad (Suc k) v)"
proof -
  have s: "str_int v = str_nat (nat v)" using assms by (simp add: str_int_def)
  have "nat v < 10 ^ Suc k" using assms by (metis nat_less_iff of_nat_numeral of_nat_power)
  then have "length (str_nat (nat v)) \<le> Suc k" by (rule length_str_nat)
  moreover have "is_digit CHR ''0''" by (simp add: is_digit_def)
  ultimately show ?thesis
    using str_nat_digits [of "nat v"] by (auto simp: zero_pad_def s Let_def list_all_iff)
qed

lemma zero_pad2_fits: "0 \<le> v \<Longrightarrow> v \<le> 99 \<Longrightarrow> fits ''dd'' (zero_pad 2 v)"
  using zero_pad_digits [of v 1] fits_digits [of 2 "zero_pad 2 v"]
  by (simp add: numeral_2_eq_2)

lemma zero_pad4_fits: "0 \<le> v \<Longrightarrow> v \<le> 9999 \<Longrightarrow> fits ''dddd'' (zero_pad 4 v)"
  using zero_pad_digits [of v 3] fits_digits [of 4 "zero_pad 4 v"]
  by (simp add: numeral_eq_Suc)

section \<open>Broken-down time and its rendering\<close>

lemma ord2ymd_month_day:
  "1 \<le> fst (snd (ord2ymd n)) \<and> fst (snd (ord2ymd n)) \<le> 12
   \<and> 1 \<le> snd (snd (ord2ymd n)) \<and> snd (snd (ord2ymd n)) \<le> 31"
proof -
  define nc where "nc = (n - 1) mod DI400Y mod DI100Y mod DI4Y"
  define n4 where "n4 = (n - 1) mod DI400Y mod DI100Y div DI4Y"
  define n100 where "n100 = (n - 1) mod DI400Y div DI100Y"
  define y where "y = (n - 1) div DI400Y * 400 + 1 + n100 * 100 + n4 * 4 + nc div 365"
  have eq: "ord2ymd n = (if nc div 365 = 4 \<or> n100 = 4 then (y - 1, 12, 31)
              else (y, month_day (nc div 365 = 3 \<and> (n4 \<noteq> 24 \<or> n100 = 3)) (nc mod 365)))"
    by (simp only: ord2ymd_def Let_def nc_def n4_def n100_def y_def)
  have r: "0 \<le> nc mod 365" "nc mod 365 \<le> 364" by simp_all
  show ?thesis
  proof (cases "nc div 365 = 4 \<or> n100 = 4")
    case True
    then show ?thesis by (simp only: eq if_True fst_conv snd_conv) simp
  next
    case False
    have "snd (ord2ymd n) = month_day (nc div 365 = 3 \<and> (n4 \<noteq> 24 \<or> n100 = 3)) (nc mod 365)"
      using False by (simp only: eq if_False snd_conv)
    then show ?thesis using month_day_range [OF r] by simp
  qed
qed

lemma fromtimestamp_utc_fields:
  assumes "fromtimestamp_utc ts = Inr dt"
  shows "1 \<le> year dt \<and> year dt \<le> 9999 \<and> 1 \<le> month dt \<and> month dt \<le> 12
         \<and> 1 \<le> day dt \<and> day dt \<le> 31 \<and> 0 \<le> hour dt \<and> hour dt \<le> 23
         \<and> 0 \<le> minute dt \<and> minute dt \<le> 59 \<and> 0 \<le> second dt \<and> second dt \<le> 59"
proof -
  obtain y m d where ymd: "ord2ymd (ts div 86400 + 719163) = (y, m, d)"
    by (cases "ord2ymd (ts div 86400 + 719163)") auto
  have md: "1 \<le> m \<and> m \<le> 12 \<and> 1 \<le> d \<and> d \<le> 31"
    using ord2ymd_month_day [of "ts div 86400 + 719163"] by (simp only: ymd fst_conv snd_conv)
  define secs where "secs = ts mod 86400"
  define rest where "rest = secs mod 3600"
  have secs: "0 \<le> secs" "secs < 86400" unfolding secs_def by simp_all
  have rest: "0 \<le> rest" "rest < 3600" unfolding rest_def by simp_all
  have eq: "fromtimestamp_utc ts =
      (if y < 1 \<or> 9999 < y then Inl ValueError
       else Inr \<lparr>year = y, month = m, day = d, hour = secs div 3600,
                 minute = rest div 60, second = secs mod 60\<rparr>)"
    by (simp only: fromtimestamp_utc_def Let_def ymd secs_def rest_def prod.case)
  have yr: "1 \<le> y \<and> y \<le> 9999" using assms unfolding eq by (cases "y < 1 \<or> 9999 < y") auto
  then have dt: "dt = \<lparr>year = y, month = m, day = d, hour = secs div 3600,
                 minute = rest div 60, second = secs mod 60\<rparr>"
    using assms unfolding eq by (cases "y < 1 \<or> 9999 < y") auto
  have h: "0 \<le> secs div 3600 \<and> secs div 3600 \<le> 23"
    using divmod_facts [of 3600 secs] secs by linarith
  have mi: "0 \<le> rest div 60 \<and> rest div 60 \<le> 59"
    using divmod_facts [of 60 rest] rest by linarith
  have se: "0 \<le> secs mod 60 \<and> secs mod 60 \<le> 59"
    using divmod_facts [of 60 secs] secs by linarith
  show ?thesis unfolding dt using yr md h mi se by simp
qed

lemma fits_dd:
  assumes "fits ''dd'' s"
  obtains x y where "s = [x, y]" and "is_digit x" and "is_digit y"
proof (cases s)
  case Nil
  with assms show ?thesis by simp
next
  case (Cons x t)
  note s = this
  show ?thesis
  proof (cases t)
    case Nil
    with assms s show ?thesis by simp
  next
    case (Cons y u)
    with assms s that show ?thesis by (cases u) simp_all
  qed
qed

lemma fits_dddd:
  assumes "fits ''dddd'' s"
  obtains a b c d where "s = [a, b, c, d]" and "is_digit a" and "is_digit b"
    and "is_digit c" and "is_digit d"
proof (cases s)
  case Nil
  with assms show ?thesis by simp
next
  case (Cons a t)
  with assms have t: "is_digit a" "fits ''ddd'' t" by simp_all
  show ?thesis
  proof (cases t)
    case Nil
    with t show ?thesis by simp
  next
    case (Cons b u)
    with t have u: "is_digit b" "fits ''dd'' u" by simp_all
    from fits_dd [OF u(2)] obtain c d where "u = [c, d]" "is_digit c" "is_digit d" by blast
    with that t u \<open>s = a # t\<close> \<open>t = b # u\<close> show ?thesis by simp
  qed
qed

lemma fits_timestamp_parts:
  assumes "fits ''dddd'' y" and "fits ''dd'' mo" and "fits ''dd'' d"
    and "fits ''dd'' h" and "fits ''dd'' mi" and "fits ''dd'' s"
  shows "timestamp_form (y @ ''-'' @ mo @ ''-'' @ d @ '' '' @ h @ '':'' @ mi @ '':'' @ s)"
proof -
  from fits_dddd [OF assms(1)] obtain y1 y2 y3 y4
    where y: "y = [y1, y2, y3, y4]" "is_digit y1" "is_digit y2" "is_digit y3" "is_digit y4"
    by blast
  from fits_dd [OF assms(2)] obtain a1 a2 where a: "mo = [a1, a2]" "is_digit a1" "is_digit a2"
    by blast
  from fits_dd [OF assms(3)] obtain b1 b2 where b: "d = [b1, b2]" "is_digit b1" "is_digit b2"
    by blast
  from fits_dd [OF assms(4)] obtain c1 c2 where c: "h = [c1, c2]" "is_digit c1" "is_digit c2"
    by blast
  from fits_dd [OF assms(5)] obtain d1 d2 where d: "mi = [d1, d2]" "is_digit d1" "is_digit d2"
    by blast
  from fits_dd [OF assms(6)] obtain e1 e2 where e: "s = [e1, e2]" "is_digit e1" "is_digit e2"
    by blast
  show ?thesis unfolding timestamp_form_def using y a b c d e by simp
qed

lemma strftime_form:
  assumes "fromtimestamp_utc ts = Inr dt" and "1000 \<le> year dt"
  shows "timestamp_form (strftime B dt)"
proof -
  note f = fromtimestamp_utc_fields [OF assms(1)]
  have y: "fits ''dddd'' (zero_pad 4 (year dt))" using f by (simp add: zero_pad4_fits)
  have mo: "fits ''dd'' (zero_pad 2 (month dt))" using f by (simp add: zero_pad2_fits)
  have d: "fits ''dd'' (zero_pad 2 (day dt))" using f by (simp add: zero_pad2_fits)
  have h: "fits ''dd'' (zero_pad 2 (hour dt))" using f by (simp add: zero_pad2_fits)
  have mi: "fits ''dd'' (zero_pad 2 (minute dt))" using f by (simp add: zero_pad2_fits)
  have s: "fits ''dd'' (zero_pad 2 (second dt))" using f by (simp add: zero_pad2_fits)
  have "strftime B dt = zero_pad 4 (year dt) @ ''-'' @ zero_pad 2 (month dt) @ ''-''
      @ zero_pad 2 (day dt) @ '' '' @ zero_pad 2 (hour dt) @ '':'' @ zero_pad 2 (minute dt)
      @ '':'' @ zero_pad 2 (second dt)"
    using assms(2) by (simp only: strftime_def if_True)
  then show ?thesis by (simp only: fits_timestamp_parts [OF y mo d h mi s])
qed

section \<open>Lines of a file and what load writes\<close>

lemma lines_from_line: "LF \<notin> set l \<Longrightarrow> lines_from cur (l @ [LF]) = [cur @ l]"
  by (induction l arbitrary: cur) auto

lemma lines_from_break:
  "lines_from cur (xs @ LF # ys) = lines_from cur (xs @ [LF]) @ lines_from [] ys"
  by (induction xs arbitrary: cur) auto

lemma file_lines_append_line:
  assumes "old = [] \<or> last old = LF" and "LF \<notin> set l"
  shows "file_lines (old @ l @ [LF]) = file_lines old @ [l]"
proof (cases "old = []")
  case True
  then show ?thesis using assms(2) by (simp add: file_lines_def lines_from_line)
next
  case False
  with assms(1) obtain t where old: "old = t @ [LF]"
    by (metis append_butlast_last_id)
  have "lines_from [] (t @ LF # (l @ [LF])) = lines_from [] (t @ [LF]) @ lines_from [] (l @ [LF])"
    by (rule lines_from_break)
  then show ?thesis using assms(2) by (simp add: file_lines_def old lines_from_line)
qed

lemma str_int_head: "str_int i \<noteq> [] \<and> (hd (str_int i) = CHR ''-'' \<or> is_digit (hd (str_int i)))"
proof -
  have "\<And>n. is_digit (hd (str_nat n))"
    using str_nat_digits str_nat_nonempty by (metis list.set_sel(1) list_all_iff)
  then show ?thesis by (simp add: str_int_def str_nat_nonempty)
qed

lemma csv_line_not_header: "csv_line B r \<noteq> csv_header"
proof
  assume eq: "csv_line B r = csv_header"
  have "hd (csv_line B r) = hd (str_int (timestamp_unix r))"
    using str_int_head [of "timestamp_unix r"] by (simp add: csv_line_def)
  then have "hd (str_int (timestamp_unix r)) = CHR ''t''" by (simp add: eq csv_header_def)
  with str_int_head [of "timestamp_unix r"] show False by (simp add: is_digit_def)
qed

lemma load_writes:
  assumes "rows \<noteq> []" and "faults w csv_file = None"
  shows "files (snd (load B (Some rows) csv_file w))
           = (files w)(csv_file \<mapsto>
               (case files w csv_file of
                  None \<Rightarrow> csv_header @ [LF] @ concat (map (\<lambda>r. csv_line B r @ [LF]) rows)
                | Some old \<Rightarrow> old @ concat (map (\<lambda>r. csv_line B r @ [LF]) rows)))"
  using assms
  by (auto simp: load_def Let_def write_file_def path_exists_def to_csv_text_def files_logger
           split: option.splits)

lemma str_nat_example: "str_nat 1700000000 = ''1700000000''"
  by (simp add: str_nat.simps digit_char_def)

lemma example_line:
  "csv_line example_builtins example_row = ''1700000000,2023-11-14 22:13:20,10.5,-20.25''"
  by (simp add: csv_line_def example_row_def example_builtins_def csv_field_def needs_quote_def
      LF_def CR_def str_int_def str_nat_example)

lemma header_one_line: "LF \<notin> set csv_header"
  by (simp add: csv_header_def LF_def)

lemma file_lines_new_file:
  assumes "LF \<notin> set l"
  shows "file_lines (csv_header @ [LF] @ l @ [LF]) = [csv_header, l]"
proof -
  have "file_lines ((csv_header @ [LF]) @ l @ [LF]) = file_lines (csv_header @ [LF]) @ [l]"
    by (rule file_lines_append_line) (simp_all add: assms)
  moreover have "file_lines (csv_header @ [LF]) = [csv_header]"
    using lines_from_line [OF header_one_line, of "[]"] by (simp add: file_lines_def)
  ultimately show ?thesis by simp
qed

lemma example_line_one: "LF \<notin> set ''1700000000,2023-11-14 22:13:20,10.5,-20.25''"
  by (simp add: LF_def)

section \<open>The orchestrator's argument check\<close>

text \<open>
  Claim C5. Called with no positional argument or with two or more (\<^verbatim>\<open>sys.argv\<close> is the
  script's name followed by the arguments), \<^verbatim>\<open>main\<close> logs the usage error and returns 2.
  No request was sent and no file was touched: \<^verbatim>\<open>extract\<close> did not run.
\<close>

theorem main_usage_error:
  "length args \<noteq> 1 \<Longrightarrow>
     fst (main B (prog # args) w) = Inr 2
     \<and> requested (snd (main B (prog # args) w)) = requested w
     \<and> files (snd (main B (prog # args) w)) = files w
     \<and> log (snd (main B (prog # args) w))
         = log w @ [(ERROR, ''Usage: python3 iss.py <output_csv_file>'', [])]"
  by (simp add: main_def logger_def)

theorem main_usage_error_witness:
  "length [''a.csv'', ''b.csv''] \<noteq> 1
   \<and> fst (main example_builtins [''iss.py'', ''a.csv'', ''b.csv''] example_world) = Inr 2
   \<and> requested (snd (main example_builtins [''iss.py'', ''a.csv'', ''b.csv''] example_world)) = []
   \<and> fst (main example_builtins [''iss.py''] example_world) = Inr 2
   \<and> requested (snd (main example_builtins [''iss.py''] example_world)) = []"
  using main_usage_error [of "[''a.csv'', ''b.csv'']" example_builtins "''iss.py''" example_world]
        main_usage_error [of "[]" example_builtins "''iss.py''" example_world]
  by (simp add: example_world_def)

section \<open>Load: what it writes and when\<close>

text \<open>
  Claim C7. With a frame of no rows (or \<^verbatim>\<open>None\<close>) \<^verbatim>\<open>load\<close> only logs a warning: for every
  path, the files are what they were, so the destination keeps its contents if it exists
  and is not created if it does not.
\<close>

theorem load_empty_no_write:
  "load B (Some []) csv_file w
     = (Inr (), logger WARNING ''Load: nothing to write (empty DataFrame)'' [] w)
   \<and> load B None csv_file w
     = (Inr (), logger WARNING ''Load: nothing to write (empty DataFrame)'' [] w)
   \<and> files (snd (load B (Some []) csv_file w)) = files w
   \<and> files (snd (load B None csv_file w)) = files w"
  by (simp add: load_def files_logger)

theorem load_empty_no_write_witness:
  "files (snd (load example_builtins (Some []) ''out.csv'' example_world)) ''out.csv'' = None
   \<and> files (snd (load example_builtins (Some [])  ''out.csv''
                 (example_world\<lparr>files := [''out.csv'' \<mapsto> ''kept'']\<rparr>))) ''out.csv'' = Some ''kept''"
  using load_empty_no_write [of example_builtins "''out.csv''" example_world]
        load_empty_no_write [of example_builtins "''out.csv''"
                               "example_world\<lparr>files := [''out.csv'' \<mapsto> ''kept'']\<rparr>"]
  by (simp add: example_world_def files_logger)

text \<open>
  Claim C8. \<^verbatim>\<open>load\<close> never raises: whatever the frame, the path and the state of the file
  system, it returns normally. When opening or writing the destination fails, the failure
  is logged at level ERROR.
\<close>

theorem load_never_raises:
  "fst (load B df csv_file w) = Inr ()
   \<and> (df = Some rows \<and> rows \<noteq> [] \<and> faults w csv_file \<noteq> None \<longrightarrow>
        log (snd (load B df csv_file w)) = log w @ [(ERROR, ''Load: failed: %s'', [''OSError''])])"
  by (auto simp: load_def Let_def write_file_def logger_def isinstance_Exception_all
           split: prod.splits sum.splits option.splits fault.splits)

theorem load_never_raises_witness:
  "fst (load example_builtins (Some [example_row]) ''out.csv''
          (example_world\<lparr>faults := [''out.csv'' \<mapsto> OpenFails]\<rparr>)) = Inr ()
   \<and> log (snd (load example_builtins (Some [example_row]) ''out.csv''
          (example_world\<lparr>faults := [''out.csv'' \<mapsto> OpenFails]\<rparr>)))
       = [(ERROR, ''Load: failed: %s'', [''OSError''])]
   \<and> files (snd (load example_builtins (Some [example_row]) ''out.csv''
          (example_world\<lparr>faults := [''out.csv'' \<mapsto> OpenFails]\<rparr>))) ''out.csv'' = None"
  using load_never_raises [of example_builtins "Some [example_row]" "''out.csv''"
          "example_world\<lparr>faults := [''out.csv'' \<mapsto> OpenFails]\<rparr>" "[example_row]"]
  by (simp add: example_world_def load_def write_file_def path_exists_def logger_def)

text \<open>
  Claim C9. Whether \<^verbatim>\<open>load\<close> writes the header depends on one thing, whether the path
  exists when it looks: a new file gets the header and the rows, and an existing file,
  whatever it holds (nothing, or text that is no log at all), gets the rows and no header.
  Stated for a write that succeeds.
\<close>

theorem load_header_iff_absent:
  assumes "rows \<noteq> []" and "faults w csv_file = None"
  shows "(files w csv_file = None \<longrightarrow>
            files (snd (load B (Some rows) csv_file w)) csv_file
              = Some (csv_header @ [LF] @ concat (map (\<lambda>r. csv_line B r @ [LF]) rows)))
         \<and> (\<forall>old. files w csv_file = Some old \<longrightarrow>
            files (snd (load B (Some rows) csv_file w)) csv_file
              = Some (old @ concat (map (\<lambda>r. csv_line B r @ [LF]) rows)))"
  using load_writes [OF assms, of B] by simp

theorem load_header_iff_absent_witness:
  "files (snd (load example_builtins (Some [example_row]) ''out.csv''
                 (example_world\<lparr>files := [''out.csv'' \<mapsto> '''']\<rparr>))) ''out.csv''
     = Some (''1700000000,2023-11-14 22:13:20,10.5,-20.25'' @ [LF])
   \<and> files (snd (load example_builtins (Some [example_row]) ''out.csv''
                 (example_world\<lparr>files := [''out.csv'' \<mapsto> ''not,a,log'']\<rparr>))) ''out.csv''
     = Some (''not,a,log'' @ ''1700000000,2023-11-14 22:13:20,10.5,-20.25'' @ [LF])
   \<and> files (snd (load example_builtins (Some [example_row]) ''out.csv'' example_world)) ''out.csv''
     = Some (csv_header @ [LF] @ ''1700000000,2023-11-14 22:13:20,10.5,-20.25'' @ [LF])"
  using load_header_iff_absent [of "[example_row]" "example_world\<lparr>files := [''out.csv'' \<mapsto> '''']\<rparr>"
          "''out.csv''" example_builtins]
        load_header_iff_absent [of "[example_row]" "example_world\<lparr>files := [''out.csv'' \<mapsto> ''not,a,log'']\<rparr>"
          "''out.csv''" example_builtins]
        load_header_iff_absent [of "[example_row]" example_world "''out.csv''" example_builtins]
  by (simp add: example_world_def example_line)

text \<open>
  Claim C4, as amended. Let the write succeed and the row's line have no line break in it (as
  every row of \<^verbatim>\<open>transform\<close> has). If the destination is absent, \<^verbatim>\<open>load\<close> creates it as the
  header line followed by the one data line. If it is present, its content stays as the
  beginning of the new content; and when that content is empty or ends with a line break,
  the file has one data row more and as many header lines as before: exactly one header
  line when it had exactly one.
\<close>

theorem load_single_row:
  assumes "faults w csv_file = None" and "LF \<notin> set (csv_line B r)"
  shows "(files w csv_file = None \<longrightarrow>
            files (snd (load B (Some [r]) csv_file w)) csv_file
              = Some (csv_header @ [LF] @ csv_line B r @ [LF])
            \<and> file_lines (csv_header @ [LF] @ csv_line B r @ [LF]) = [csv_header, csv_line B r])
         \<and> (\<forall>old. files w csv_file = Some old \<longrightarrow>
            files (snd (load B (Some [r]) csv_file w)) csv_file = Some (old @ csv_line B r @ [LF])
            \<and> (old = [] \<or> last old = LF \<longrightarrow>
                 data_rows (old @ csv_line B r @ [LF]) = data_rows old + 1
                 \<and> header_lines (old @ csv_line B r @ [LF]) = header_lines old))"
proof -
  have w: "files (snd (load B (Some [r]) csv_file w)) csv_file
       = Some (case files w csv_file of None \<Rightarrow> csv_header @ [LF] @ csv_line B r @ [LF]
               | Some old \<Rightarrow> old @ csv_line B r @ [LF])"
    using load_writes [of "[r]" w csv_file B] assms(1) by (simp split: option.splits)
  have counts: "data_rows (old @ csv_line B r @ [LF]) = data_rows old + 1
                 \<and> header_lines (old @ csv_line B r @ [LF]) = header_lines old"
    if "old = [] \<or> last old = LF" for old
    using file_lines_append_line [OF that assms(2)] csv_line_not_header [of B r]
    by (simp add: data_rows_def header_lines_def)
  show ?thesis using w counts file_lines_new_file [OF assms(2)] by simp
qed

theorem load_single_row_witness:
  "files (snd (load example_builtins (Some [example_row]) ''out.csv'' example_world)) ''out.csv''
     = Some (csv_header @ [LF] @ ''1700000000,2023-11-14 22:13:20,10.5,-20.25'' @ [LF])
   \<and> data_rows (csv_header @ [LF] @ ''1700000000,2023-11-14 22:13:20,10.5,-20.25'' @ [LF]) = 1
   \<and> header_lines (csv_header @ [LF] @ ''1700000000,2023-11-14 22:13:20,10.5,-20.25'' @ [LF]) = 1
   \<and> files (snd (load example_builtins (Some [example_row]) ''out.csv''
        (example_world\<lparr>files := [''out.csv'' \<mapsto>
            csv_header @ [LF] @ ''1700000000,2023-11-14 22:13:20,10.5,-20.25'' @ [LF]]\<rparr>))) ''out.csv''
     = Some ((csv_header @ [LF] @ ''1700000000,2023-11-14 22:13:20,10.5,-20.25'' @ [LF])
             @ ''1700000000,2023-11-14 22:13:20,10.5,-20.25'' @ [LF])
   \<and> data_rows ((csv_header @ [LF] @ ''1700000000,2023-11-14 22:13:20,10.5,-20.25'' @ [LF])
             @ ''1700000000,2023-11-14 22:13:20,10.5,-20.25'' @ [LF]) = 2
   \<and> header_lines ((csv_header @ [LF] @ ''1700000000,2023-11-14 22:13:20,10.5,-20.25'' @ [LF])
             @ ''1700000000,2023-11-14 22:13:20,10.5,-20.25'' @ [LF]) = 1"
proof -
  let ?l = "''1700000000,2023-11-14 22:13:20,10.5,-20.25''"
  let ?f = "csv_header @ [LF] @ ?l @ [LF]"
  have a: "faults example_world ''out.csv'' = None"
     "faults (example_world\<lparr>files := [''out.csv'' \<mapsto> ?f]\<rparr>) ''out.csv'' = None"
     "files example_world ''out.csv'' = None"
     "files (example_world\<lparr>files := [''out.csv'' \<mapsto> ?f]\<rparr>) ''out.csv'' = Some ?f"
    by (simp_all add: example_world_def)
  have l: "LF \<notin> set (csv_line example_builtins example_row)"
    by (simp only: example_line example_line_one not_False_eq_True)
  have c: "data_rows ?f = 1" "header_lines ?f = 1" "last ?f = LF"
    using file_lines_new_file [OF example_line_one] csv_line_not_header [of example_builtins example_row]
    by (simp_all add: data_rows_def header_lines_def example_line)
  show ?thesis
    using load_single_row [OF a(1) l] load_single_row [OF a(2) l] a(3,4) c
    by (simp add: example_line)
qed

text \<open>
  The claim as stated does not ask for a header in the existing file. An existing empty file
  has no data row; after \<^verbatim>\<open>load\<close> it has one data row and no header line, not one.
\<close>

theorem load_existing_empty_file_counterexample:
  "files (example_world\<lparr>files := [''out.csv'' \<mapsto> '''']\<rparr>) ''out.csv'' = Some ''''
   \<and> data_rows '''' = 0
   \<and> files (snd (load example_builtins (Some [example_row]) ''out.csv''
                 (example_world\<lparr>files := [''out.csv'' \<mapsto> '''']\<rparr>))) ''out.csv''
       = Some (''1700000000,2023-11-14 22:13:20,10.5,-20.25'' @ [LF])
   \<and> data_rows (''1700000000,2023-11-14 22:13:20,10.5,-20.25'' @ [LF]) = 1
   \<and> header_lines (''1700000000,2023-11-14 22:13:20,10.5,-20.25'' @ [LF]) = 0"
proof -
  let ?l = "''1700000000,2023-11-14 22:13:20,10.5,-20.25''"
  let ?w = "example_world\<lparr>files := [''out.csv'' \<mapsto> '''']\<rparr>"
  have f: "faults ?w ''out.csv'' = None" "files ?w ''out.csv'' = Some ''''"
    by (simp_all add: example_world_def)
  have "files (snd (load example_builtins (Some [example_row]) ''out.csv'' ?w)) ''out.csv''
          = Some (?l @ [LF])"
    using load_writes [of "[example_row]" ?w "''out.csv''" example_builtins] f
    by (simp add: example_line)
  moreover have "file_lines (?l @ [LF]) = [?l]"
    using lines_from_line [OF example_line_one, of "[]"] by (simp add: file_lines_def)
  moreover have "?l \<noteq> csv_header" by (simp add: csv_header_def)
  ultimately show ?thesis using f
    by (simp add: data_rows_def header_lines_def file_lines_def)
qed

text \<open>
  Why the existing content has to end with a line break: appended to a header that lacks
  one, the row continues the header's line, and the file has no header line any more.
\<close>

lemma load_unterminated_file_example:
  "files (snd (load example_builtins (Some [example_row]) ''out.csv''
                 (example_world\<lparr>files := [''out.csv'' \<mapsto> csv_header]\<rparr>))) ''out.csv''
       = Some (csv_header @ ''1700000000,2023-11-14 22:13:20,10.5,-20.25'' @ [LF])
   \<and> header_lines csv_header = 1
   \<and> header_lines (csv_header @ ''1700000000,2023-11-14 22:13:20,10.5,-20.25'' @ [LF]) = 0"
proof -
  let ?l = "''1700000000,2023-11-14 22:13:20,10.5,-20.25''"
  let ?w = "example_world\<lparr>files := [''out.csv'' \<mapsto> csv_header]\<rparr>"
  have f: "faults ?w ''out.csv'' = None" "files ?w ''out.csv'' = Some csv_header"
    by (simp_all add: example_world_def)
  have w: "files (snd (load example_builtins (Some [example_row]) ''out.csv'' ?w)) ''out.csv''
          = Some (csv_header @ ?l @ [LF])"
    using load_writes [of "[example_row]" ?w "''out.csv''" example_builtins] f
    by (simp add: example_line)
  have "LF \<notin> set (csv_header @ ?l)" using header_one_line example_line_one by simp
  from lines_from_line [OF this, of "[]"]
  have glued: "file_lines (csv_header @ ?l @ [LF]) = [csv_header @ ?l]"
    by (simp add: file_lines_def)
  have alone: "file_lines csv_header = [csv_header]"
    by (simp add: file_lines_def csv_header_def LF_def)
  show ?thesis using w glued alone by (simp add: header_lines_def)
qed

section \<open>Transform: the row of a valid record\<close>

lemma ex_time: "fromtimestamp_utc 1700000000
   = Inr \<lparr>year = 2023, month = 11, day = 14, hour = 22, minute = 13, second = 20\<rparr>"
  by code_simp

lemma ex_str:
  "strftime B \<lparr>year = 2023, month = 11, day = 14, hour = 22, minute = 13, second = 20\<rparr>
   = ''2023-11-14 22:13:20''"
  by (simp add: strftime_def zero_pad_def str_int_def str_nat.simps digit_char_def)

lemma far_time: "fromtimestamp_utc 1000000000000 = Inl ValueError"
  by code_simp

text \<open>
  Claim C1, as amended. Let a record hold a \<^verbatim>\<open>timestamp\<close> that \<^verbatim>\<open>int\<close> coerces to \<open>ts\<close>, with
  \<open>ts\<close> a second of the years 1000 to 9999 (from \<open>-30610224000\<close> to \<open>253402300799\<close>), and an
  \<^verbatim>\<open>iss_position\<close> dict whose \<^verbatim>\<open>latitude\<close> and \<^verbatim>\<open>longitude\<close> \<^verbatim>\<open>float\<close> coerces to \<open>lat\<close> and
  \<open>lon\<close>. Then \<^verbatim>\<open>transform\<close> returns exactly one row: \<open>ts\<close>, the rendering of the UTC time of
  \<open>ts\<close>, \<open>lat\<close> and \<open>lon\<close>; and the rendering has the shape \<^verbatim>\<open>YYYY-MM-DD HH:MM:SS\<close>.
\<close>

theorem transform_valid_record:
  assumes "map_of record ''timestamp'' = Some tv" and "py_int B tv = Inr ts"
    and "- 30610224000 \<le> ts" and "ts \<le> 253402300799"
    and "map_of record ''iss_position'' = Some (PDict pos)"
    and "map_of pos ''latitude'' = Some latv" and "py_float B latv = Inr lat"
    and "map_of pos ''longitude'' = Some lonv" and "py_float B lonv = Inr lon"
  shows "\<exists>dt. fromtimestamp_utc ts = Inr dt
           \<and> fst (transform B record w)
               = Inr [\<lparr>timestamp_unix = ts, timestamp_utc = strftime B dt,
                        latitude = lat, longitude = lon\<rparr>]
           \<and> timestamp_form (strftime B dt)"
proof -
  have "- 62135596800 \<le> ts" using assms(3) by simp
  from fromtimestamp_utc_in_range [OF this assms(4)]
  obtain dt where dt: "fromtimestamp_utc ts = Inr dt" by blast
  have y: "1000 \<le> year dt" using dt assms(3) by (rule fromtimestamp_utc_year_1000)
  have ne: "record \<noteq> []" using assms(1) by auto
  have "transform_try B record
          = Inr \<lparr>timestamp_unix = ts, timestamp_utc = strftime B dt, latitude = lat, longitude = lon\<rparr>"
    using assms dt by (simp add: transform_try_def bindE_def)
  with ne have "fst (transform B record w)
               = Inr [\<lparr>timestamp_unix = ts, timestamp_utc = strftime B dt,
                        latitude = lat, longitude = lon\<rparr>]"
    by (simp add: transform_def)
  with dt strftime_form [OF dt y] show ?thesis by blast
qed

text \<open>The example of the specification: the record of second 1700000000.\<close>

theorem transform_valid_record_witness:
  "fst (transform example_builtins (example_record 1700000000) example_world) = Inr [example_row]"
  using transform_valid_record [of "example_record 1700000000" "PInt 1700000000" example_builtins
          1700000000 "[(''latitude'', PStr ''10.5''), (''longitude'', PStr ''-20.25'')]"
          "PStr ''10.5''" "21 / 2" "PStr ''-20.25''" "- (81 / 4)" example_world]
  by (simp add: example_record_def example_builtins_def example_row_def ex_time ex_str)

text \<open>
  Without the bound on the timestamp the claim fails: second \<open>10\<^sup>1\<^sup>2\<close> lies in the
  year 33658, \<^verbatim>\<open>fromtimestamp\<close> raises, and \<^verbatim>\<open>transform\<close> returns no row.
\<close>

theorem transform_far_future_counterexample:
  "py_int example_builtins (PInt 1000000000000) = Inr 1000000000000
   \<and> fst (transform example_builtins (example_record 1000000000000) example_world) = Inr []"
  by (simp add: transform_def transform_try_def bindE_def example_record_def example_builtins_def far_time)

text \<open>
  Why the years below 1000 are left out. The last second of the year 999 is rendered with
  whatever the platform writes for that year; where it writes \<^verbatim>\<open>999\<close>, as glibc does, the
  text is \<^verbatim>\<open>999-12-31 23:59:59\<close>, which has not the shape.
\<close>

lemma early_time: "fromtimestamp_utc (- 30610224001)
   = Inr \<lparr>year = 999, month = 12, day = 31, hour = 23, minute = 59, second = 59\<rparr>"
  by code_simp

lemma strftime_year_999:
  "strftime B \<lparr>year = 999, month = 12, day = 31, hour = 23, minute = 59, second = 59\<rparr>
     = year_below_1000 B 999 @ ''-12-31 23:59:59''"
  by (simp add: strftime_def zero_pad_def str_int_def str_nat.simps digit_char_def)

lemma unpadded_year_999:
  "year_below_1000 B 999 = ''999'' \<Longrightarrow>
   \<not> timestamp_form
        (strftime B \<lparr>year = 999, month = 12, day = 31, hour = 23, minute = 59, second = 59\<rparr>)"
  by (simp add: strftime_year_999 timestamp_form_def is_digit_def)

section \<open>Transform: records that yield no row\<close>

lemma transform_try_fails:
  assumes "isl (field_timestamp B record) \<or> isl (field_position B record ''latitude'')
           \<or> isl (field_position B record ''longitude'')"
  shows "\<exists>e. transform_try B record = Inl e"
  using assms unfolding transform_try_def field_timestamp_def field_position_def bindE_def
  by (auto split: sum.splits)

text \<open>
  Claim C6. When the record is empty, or one of \<^verbatim>\<open>timestamp\<close>, \<^verbatim>\<open>iss_position.latitude\<close>,
  \<^verbatim>\<open>iss_position.longitude\<close> is missing or cannot be coerced, \<^verbatim>\<open>transform\<close> returns
  normally with no row, and the log has a new entry at level WARNING or ERROR.
\<close>

theorem transform_degrades:
  assumes "record = [] \<or> isl (field_timestamp B record)
           \<or> isl (field_position B record ''latitude'')
           \<or> isl (field_position B record ''longitude'')"
  shows "fst (transform B record w) = Inr []
         \<and> (\<exists>lvl fmt args. (lvl = WARNING \<or> lvl = ERROR)
               \<and> log (snd (transform B record w))
                   = log w @ [(INFO, ''Transform: converting record to tabular format'', []),
                              (lvl, fmt, args)])"
proof (cases "record = []")
  case True
  then show ?thesis by (simp add: transform_def logger_def)
next
  case False
  with assms obtain e where "transform_try B record = Inl e"
    using transform_try_fails by blast
  with False show ?thesis
    by (simp add: transform_def logger_def isinstance_Exception_all)
qed

theorem transform_degrades_witness:
  "fst (transform example_builtins [] example_world) = Inr []
   \<and> log (snd (transform example_builtins [] example_world))
      = [(INFO, ''Transform: converting record to tabular format'', []),
         (WARNING, ''Transform: empty record; returning empty DataFrame'', [])]
   \<and> isl (field_position example_builtins
             [(''timestamp'', PInt 1700000000), (''iss_position'', PDict [(''latitude'', PStr ''north'')])]
             ''latitude'')
   \<and> fst (transform example_builtins
             [(''timestamp'', PInt 1700000000), (''iss_position'', PDict [(''latitude'', PStr ''north'')])]
             example_world) = Inr []"
  using transform_degrades [of "[]" example_builtins example_world]
    transform_degrades [of "[(''timestamp'', PInt 1700000000), (''iss_position'', PDict [(''latitude'', PStr ''north'')])]" example_builtins example_world]
  by (simp add: transform_def logger_def example_world_def field_position_def bindE_def example_builtins_def)

section \<open>Transform: totality\<close>

text \<open>
  Claim C10. \<^verbatim>\<open>transform\<close> is total on dicts: for every dict it returns normally, with a
  frame of one row or of none. Every exception of the conversion is an \<^verbatim>\<open>Exception\<close> and is
  caught.
\<close>

theorem transform_total:
  "\<exists>df. fst (transform B record w) = Inr df \<and> length df \<le> 1"
  by (auto simp: transform_def Let_def isinstance_Exception_all split: sum.splits)

theorem transform_total_witness:
  "fst (transform example_builtins [(''timestamp'', PList [])] example_world) = Inr []
   \<and> fst (transform example_builtins
            [(''timestamp'', PInt 5), (''iss_position'', PStr ''x'')] example_world) = Inr []"
  using transform_total [of example_builtins "[(''timestamp'', PList [])]" example_world]
        transform_total [of example_builtins
                           "[(''timestamp'', PInt 5), (''iss_position'', PStr ''x'')]" example_world]
  by (simp add: transform_def transform_try_def bindE_def logger_def)

section \<open>Extract: caught and uncaught failures\<close>

text \<open>
  The failures the two \<^verbatim>\<open>except\<close> clauses are written for: no connection, a timeout, a
  response with a 4xx or 5xx status, a body that is not JSON. \<^verbatim>\<open>extract\<close> returns the empty
  dict, logs the failure at level ERROR and writes no file.
\<close>

lemma extract_listed_failures:
  assumes "http w = NoConnection \<or> http w = TimedOut
           \<or> (http w = Response status body \<and> (400 \<le> status \<and> status < 600 \<or> body = None))"
  shows "fst (extract B w) = Inr []
         \<and> (\<exists>fmt args. log (snd (extract B w))
               = log w @ [(INFO, ''Extract: requesting %s'', [url]), (ERROR, fmt, args)])
         \<and> files (snd (extract B w)) = files w"
  using assms
  by (auto simp: extract_def extract_try_def requests_get_def raise_for_status_def resp_json_def
        logger_def Let_def)

text \<open>
  Claim C2 has \<^verbatim>\<open>extract\<close> never raise. Two executions in which an exception leaves it:
  the snapshot \<^verbatim>\<open>iss_raw.json\<close> cannot be opened, and the \<^verbatim>\<open>OSError\<close> of \<^verbatim>\<open>open\<close> is neither a
  \<^verbatim>\<open>RequestException\<close> nor a \<^verbatim>\<open>ValueError\<close>; the endpoint answers with JSON that is a list, and
  \<^verbatim>\<open>data.get\<close> raises \<^verbatim>\<open>AttributeError\<close>.
\<close>

theorem extract_raises:
  "fst (extract example_builtins (example_world\<lparr>faults := [''iss_raw.json'' \<mapsto> OpenFails]\<rparr>))
     = Inl OSError
   \<and> fst (extract example_builtins (example_world\<lparr>http := Response 200 (Some (PList []))\<rparr>))
     = Inl AttributeError"
  by (simp add: extract_def extract_try_def requests_get_def raise_for_status_def resp_json_def
        write_file_def logger_def Let_def example_world_def)

section \<open>The orchestrator's run\<close>

lemma transform_returns: "\<exists>df w'. transform B record w = (Inr df, w')"
  by (auto simp: transform_def Let_def isinstance_Exception_all split: sum.splits)

lemma load_returns: "\<exists>w'. load B df csv_file w = (Inr (), w')"
  by (auto simp: load_def Let_def isinstance_Exception_all split: prod.splits sum.splits)

text \<open>
  Once \<^verbatim>\<open>extract\<close> has returned, \<^verbatim>\<open>main\<close> called with one argument runs \<^verbatim>\<open>transform\<close> on the
  record and \<^verbatim>\<open>load\<close> on the frame, in this order, and returns 0, whatever the two did.
\<close>

lemma main_completes:
  assumes "extract B (logger INFO ''Starting ISS ETL; output=%s'' [csv_file] w) = (Inr record, w1)"
  shows "\<exists>df w2 w3. transform B record w1 = (Inr df, w2)
           \<and> load B (Some df) csv_file w2 = (Inr (), w3)
           \<and> main B [prog, csv_file] w = (Inr 0, logger INFO ''Done.'' [] w3)"
proof -
  obtain df w2 where t: "transform B record w1 = (Inr df, w2)"
    using transform_returns by blast
  obtain w3 where l: "load B (Some df) csv_file w2 = (Inr (), w3)"
    using load_returns by blast
  have "main B [prog, csv_file] w = (Inr 0, logger INFO ''Done.'' [] w3)"
    using assms t l by (simp add: main_def Let_def)
  with t l show ?thesis by blast
qed

lemma example_floats:
  "float_of_str example_builtins ''10.5'' = Some (21 / 2)"
  "float_of_str example_builtins ''-20.25'' = Some (- (81 / 4))"
  by (simp_all add: example_builtins_def)

text \<open>A run that succeeds: exit code 0 and a new log of the header and one data line.\<close>

lemma main_example_run:
  "fst (main example_builtins [''iss.py'', ''out.csv''] example_world) = Inr 0
   \<and> files (snd (main example_builtins [''iss.py'', ''out.csv''] example_world)) ''out.csv''
       = Some (csv_header @ [LF] @ ''1700000000,2023-11-14 22:13:20,10.5,-20.25'' @ [LF])"
  by (simp add: main_def extract_def extract_try_def requests_get_def raise_for_status_def resp_json_def
        write_file_def logger_def Let_def example_world_def transform_def transform_try_def bindE_def
        example_record_def ex_time ex_str load_def path_exists_def to_csv_text_def
        example_line [unfolded example_row_def] example_floats isinstance_Exception_all)

text \<open>
  Claim C3 has \<^verbatim>\<open>main\<close>, called with one argument, run the three stages and return 0
  whatever happens. A run in which it does not: the snapshot cannot be opened, the \<^verbatim>\<open>OSError\<close>
  leaves \<^verbatim>\<open>extract\<close> and then \<^verbatim>\<open>main\<close>, which returns no exit code; the log ends with the
  request, and neither \<^verbatim>\<open>transform\<close> nor \<^verbatim>\<open>load\<close> has run.
\<close>

theorem main_raises:
  "length [''iss.py'', ''out.csv''] = 2
   \<and> fst (main example_builtins [''iss.py'', ''out.csv'']
            (example_world\<lparr>faults := [''iss_raw.json'' \<mapsto> OpenFails]\<rparr>)) = Inl OSError
   \<and> log (snd (main example_builtins [''iss.py'', ''out.csv'']
            (example_world\<lparr>faults := [''iss_raw.json'' \<mapsto> OpenFails]\<rparr>)))
      = [(INFO, ''Starting ISS ETL; output=%s'', [''out.csv'']),
         (INFO, ''Extract: requesting %s'', [url])]"
  by (simp add: main_def extract_def extract_try_def requests_get_def raise_for_status_def resp_json_def
        write_file_def logger_def Let_def example_world_def)

end
